theory Spec2Isabelle
  imports Complex_Main "HOL-Library.Sublist"
begin

section \<open>The gesture recognition engine (engine.py)\<close>

text \<open>
  A shallow embedding of the approach selection engine: the configuration validator
  \<open>validate_config\<close>, the class \<open>PerformanceMonitor\<close> and the switching
  methods of \<open>GestureRecognitionEngine\<close>. Logging and printing are left out; a Python
  exception is a value \<open>Inl e\<close>.

  Python's integers are exact and are modelled by \<open>int\<close>. Its floats are binary64
  numbers; their arithmetic rounds, and \<open>sum\<close> over floats differs between Python
  versions. The floats are therefore a type variable \<open>'f\<close>, and the operations on them
  are the fields of a record \<open>arith\<close> that every definition and theorem takes as a
  parameter: what is proved holds for whatever these operations compute.
\<close>

subsection \<open>Python values\<close>

datatype py_error = AttributeError | TypeError | IndexError | ZeroDivisionError | OverflowError

text \<open>
  What \<open>json.load\<close> returns. An object is an association list in key order; a key
  is looked up with \<open>map_of\<close> and the keys are listed with \<open>map fst\<close>. \<open>JNull\<close>
  is Python's \<open>None\<close>. \<open>JNum q\<close> is a number whose loaded value is \<open>q\<close> (an int,
  or the exact value of a finite float); \<open>JNonFinite\<close> stands for the floats that
  \<open>json.load\<close> makes of the literals \<open>NaN\<close>, \<open>Infinity\<close> and \<open>-Infinity\<close>.
\<close>

datatype json =
    JNull
  | JBool bool
  | JNum rat
  | JNonFinite
  | JStr string
  | JArr "json list"
  | JObj "(string \<times> json) list"

type_synonym py_dict = "(string \<times> json) list"

text \<open>\<open>d.get(k)\<close>: \<open>None\<close> when the key is absent.\<close>

definition dict_get :: "py_dict \<Rightarrow> string \<Rightarrow> json" where
  "dict_get d k = (case map_of d k of None \<Rightarrow> JNull | Some v \<Rightarrow> v)"

text \<open>\<open>d.get(k, dflt)\<close>: the default only when the key is absent.\<close>

definition dict_get_default :: "py_dict \<Rightarrow> string \<Rightarrow> json \<Rightarrow> json" where
  "dict_get_default d k dflt = (case map_of d k of None \<Rightarrow> dflt | Some v \<Rightarrow> v)"

text \<open>\<open>x.get(k)\<close> on a value that may not be a dict: only a dict has the method.\<close>

definition json_get :: "json \<Rightarrow> string \<Rightarrow> py_error + json" where
  "json_get x k = (case x of JObj d \<Rightarrow> Inr (dict_get d k) | _ \<Rightarrow> Inl AttributeError)"

text \<open>The truth value of \<open>x\<close> in \<open>not x\<close>.\<close>

definition truthy :: "json \<Rightarrow> bool" where
  "truthy x = (case x of
      JNull \<Rightarrow> False
    | JBool b \<Rightarrow> b
    | JNum n \<Rightarrow> n \<noteq> 0
    | JNonFinite \<Rightarrow> True
    | JStr s \<Rightarrow> s \<noteq> []
    | JArr xs \<Rightarrow> xs \<noteq> []
    | JObj d \<Rightarrow> d \<noteq> [])"

text \<open>
  \<open>s in x\<close> for a string \<open>s\<close>: a key of a dict, an element of a list, a substring
  of a string; any other container raises TypeError.
\<close>

definition str_in :: "string \<Rightarrow> json \<Rightarrow> py_error + bool" where
  "str_in s x = (case x of
      JObj d \<Rightarrow> Inr (s \<in> set (map fst d))
    | JArr xs \<Rightarrow> Inr (JStr s \<in> set xs)
    | JStr t \<Rightarrow> Inr (sublist s t)
    | _ \<Rightarrow> Inl TypeError)"

text \<open>\<open>xs[i:]\<close>: a negative index counts from the end, and the bounds are clipped.\<close>

definition py_slice_from :: "int \<Rightarrow> 'a list \<Rightarrow> 'a list" where
  "py_slice_from i xs =
     (let n = int (length xs);
          j = (if i < 0 then max (n + i) 0 else min i n)
      in drop (nat j) xs)"

text \<open>\<open>xs[0]\<close>.\<close>

definition first_item :: "'a list \<Rightarrow> py_error + 'a" where
  "first_item xs = (case xs of [] \<Rightarrow> Inl IndexError | x # _ \<Rightarrow> Inr x)"

subsection \<open>Python numbers\<close>

text \<open>A number is an int or a float.\<close>

datatype 'f py_num = PyInt int | PyFloat 'f

text \<open>
  The operations on floats that the engine uses:
  \<^item> \<open>nearest q\<close>: the float nearest to the rational \<open>q\<close>, for \<open>q\<close> within the float
    range. It is the value of a float literal and of the quotient of two ints.
  \<^item> \<open>float_div x n\<close>: \<open>x / n\<close> for a float \<open>x\<close> and a positive int \<open>n\<close>.
  \<^item> \<open>float_sub x y\<close>: \<open>x - y\<close> for two floats.
  \<^item> \<open>mixed_sum xs\<close>: \<open>sum(xs)\<close> for a list with at least one float; it is a float,
    or \<open>None\<close> for the OverflowError of an int too large to be converted.
  \<^item> \<open>num_less a b\<close>: \<open>a < b\<close> where at least one side is a float.
\<close>

record 'f arith =
  nearest :: "rat \<Rightarrow> 'f"
  float_div :: "'f \<Rightarrow> nat \<Rightarrow> 'f"
  float_sub :: "'f \<Rightarrow> 'f \<Rightarrow> 'f"
  mixed_sum :: "'f py_num list \<Rightarrow> 'f option"
  num_less :: "'f py_num \<Rightarrow> 'f py_num \<Rightarrow> bool"

text \<open>
  A rational is beyond the float range when it rounds to \<open>2 ^ 1024\<close> or more in
  magnitude; the largest float is \<open>2 ^ 1024 - 2 ^ 971\<close>, and the midpoint rounds up.
\<close>

definition beyond_float_range :: "rat \<Rightarrow> bool" where
  "beyond_float_range q = (2 ^ 1024 - 2 ^ 970 \<le> \<bar>q\<bar>)"

text \<open>The ints of a list of numbers, when all of them are ints.\<close>

fun all_ints :: "'f py_num list \<Rightarrow> int list option" where
  "all_ints [] = Some []"
| "all_ints (PyInt i # xs) = (case all_ints xs of None \<Rightarrow> None | Some is \<Rightarrow> Some (i # is))"
| "all_ints (PyFloat x # xs) = None"

text \<open>\<open>sum(xs)\<close>: exact on ints.\<close>

definition py_sum :: "'f arith \<Rightarrow> 'f py_num list \<Rightarrow> py_error + 'f py_num" where
  "py_sum ar xs =
     (case all_ints xs of
        Some is \<Rightarrow> Inr (PyInt (sum_list is))
      | None \<Rightarrow> (case mixed_sum ar xs of
                   None \<Rightarrow> Inl OverflowError
                 | Some x \<Rightarrow> Inr (PyFloat x)))"

text \<open>
  \<open>a / n\<close> for a number \<open>a\<close> and \<open>n = len(...)\<close>: a zero divisor raises; the quotient
  of two ints is the float nearest to the exact quotient, or an OverflowError.
\<close>

definition py_truediv :: "'f arith \<Rightarrow> 'f py_num \<Rightarrow> nat \<Rightarrow> py_error + 'f py_num" where
  "py_truediv ar a n =
     (if n = 0 then Inl ZeroDivisionError
      else case a of
          PyInt i \<Rightarrow>
            if beyond_float_range (of_int i / of_nat n) then Inl OverflowError
            else Inr (PyFloat (nearest ar (of_int i / of_nat n)))
        | PyFloat x \<Rightarrow> Inr (PyFloat (float_div ar x n)))"

text \<open>\<open>a < b\<close>; \<open>a > b\<close> is \<open>py_less ar b a\<close>.\<close>

definition py_less :: "'f arith \<Rightarrow> 'f py_num \<Rightarrow> 'f py_num \<Rightarrow> bool" where
  "py_less ar a b =
     (case (a, b) of
        (PyInt i, PyInt j) \<Rightarrow> i < j
      | _ \<Rightarrow> num_less ar a b)"

text \<open>
  \<open>x - b\<close> for a float \<open>x\<close>: an int \<open>b\<close> is converted to a float first, which
  raises when it is too large.
\<close>

definition float_minus :: "'f arith \<Rightarrow> 'f \<Rightarrow> 'f py_num \<Rightarrow> py_error + 'f" where
  "float_minus ar x b =
     (case b of
        PyInt i \<Rightarrow>
          if beyond_float_range (of_int i) then Inl OverflowError
          else Inr (float_sub ar x (nearest ar (of_int i)))
      | PyFloat y \<Rightarrow> Inr (float_sub ar x y))"

subsection \<open>validate_config\<close>

text \<open>
  The three checks in the order of the source; each \<open>return False\<close> is \<open>Inr False\<close>.
  A value of \<open>approach\<close> that is not a string equals neither of the two names.
\<close>

definition validate_config :: "py_dict \<Rightarrow> py_error + bool" where
  "validate_config config =
     (if dict_get config ''mode'' \<notin> set [JStr ''static'', JStr ''dynamic''] then Inr False
      else
        case (if dict_get config ''mode'' = JStr ''static'' then
                (case dict_get config ''approach'' of
                   JStr approach \<Rightarrow>
                     if approach \<notin> set [''mediapipe'', ''smolvlm''] then Inr False
                     else (case str_in approach (dict_get_default config ''approaches'' (JObj [])) of
                             Inl e \<Rightarrow> Inl e
                           | Inr b \<Rightarrow> if \<not> b then Inr False else Inr True)
                 | _ \<Rightarrow> Inr False)
              else Inr True) of
          Inl e \<Rightarrow> Inl e
        | Inr False \<Rightarrow> Inr False
        | Inr True \<Rightarrow>
            if dict_get config ''mode'' = JStr ''dynamic'' then
              (case json_get (dict_get_default config ''dynamic'' (JObj [])) ''enabled'' of
                 Inl e \<Rightarrow> Inl e
               | Inr enabled \<Rightarrow> if \<not> truthy enabled then Inr False else Inr True)
            else Inr True)"

subsection \<open>PerformanceMonitor\<close>

text \<open>The four keys of \<open>self.history\<close>, in the order of the dict literal.\<close>

datatype metric = Latency_ms | Cpu_percent | Memory_mb | Fps

fun key_name :: "metric \<Rightarrow> string" where
  "key_name Latency_ms = ''latency_ms''"
| "key_name Cpu_percent = ''cpu_percent''"
| "key_name Memory_mb = ''memory_mb''"
| "key_name Fps = ''fps''"

record 'f PerformanceMonitor =
  thresholds :: "string \<rightharpoonup> 'f py_num"
  window_size :: int
  history :: "metric \<Rightarrow> 'f py_num list"

definition PerformanceMonitor_init ::
  "(string \<rightharpoonup> 'f py_num) \<Rightarrow> int \<Rightarrow> 'f PerformanceMonitor" where
  "PerformanceMonitor_init thr w =
     \<lparr>thresholds = thr, window_size = w, history = (\<lambda>_. [])\<rparr>"

text \<open>\<open>d.get(key, dflt)\<close> on a dict of numbers.\<close>

definition get_or :: "(string \<rightharpoonup> 'f py_num) \<Rightarrow> string \<Rightarrow> 'f py_num \<Rightarrow> 'f py_num" where
  "get_or d k dflt = (case d k of None \<Rightarrow> dflt | Some v \<Rightarrow> v)"

text \<open>The four \<open>append\<close> calls of \<open>record\<close>; the default is the int 0.\<close>

definition append_metrics ::
  "'f PerformanceMonitor \<Rightarrow> (string \<rightharpoonup> 'f py_num) \<Rightarrow> 'f PerformanceMonitor" where
  "append_metrics m metrics =
     m\<lparr>history := (\<lambda>key. history m key @ [get_or metrics (key_name key) (PyInt 0)])\<rparr>"

text \<open>The loop over the keys of \<open>self.history\<close> that trims each list.\<close>

definition trim_history :: "'f PerformanceMonitor \<Rightarrow> 'f PerformanceMonitor" where
  "trim_history m =
     m\<lparr>history := (\<lambda>key.
          if int (length (history m key)) > window_size m
          then py_slice_from (- window_size m) (history m key)
          else history m key)\<rparr>"

definition record_metrics ::
  "'f PerformanceMonitor \<Rightarrow> (string \<rightharpoonup> 'f py_num) \<Rightarrow> 'f PerformanceMonitor" where
  "record_metrics m metrics = trim_history (append_metrics m metrics)"

text \<open>A sequence of \<open>record\<close> calls, first sample first.\<close>

definition record_all ::
  "'f PerformanceMonitor \<Rightarrow> (string \<rightharpoonup> 'f py_num) list \<Rightarrow> 'f PerformanceMonitor" where
  "record_all m samples = fold (\<lambda>s acc. record_metrics acc s) samples m"

text \<open>
  One entry of the dict that \<open>get_average_metrics\<close> returns:
  \<open>sum(xs) / len(xs) if xs else 0\<close>.
\<close>

definition average_of :: "'f arith \<Rightarrow> 'f py_num list \<Rightarrow> py_error + 'f py_num" where
  "average_of ar xs =
     (if xs \<noteq> [] then
        (case py_sum ar xs of
           Inl e \<Rightarrow> Inl e
         | Inr s \<Rightarrow> py_truediv ar s (length xs))
      else Inr (PyInt 0))"

definition get_average_metrics ::
  "'f arith \<Rightarrow> 'f PerformanceMonitor \<Rightarrow> py_error + (metric \<Rightarrow> 'f py_num)" where
  "get_average_metrics ar m =
     (case average_of ar (history m Latency_ms) of Inl e \<Rightarrow> Inl e | Inr l \<Rightarrow>
      case average_of ar (history m Cpu_percent) of Inl e \<Rightarrow> Inl e | Inr c \<Rightarrow>
      case average_of ar (history m Memory_mb) of Inl e \<Rightarrow> Inl e | Inr mb \<Rightarrow>
      case average_of ar (history m Fps) of Inl e \<Rightarrow> Inl e | Inr f \<Rightarrow>
      Inr (\<lambda>key. case key of Latency_ms \<Rightarrow> l | Cpu_percent \<Rightarrow> c | Memory_mb \<Rightarrow> mb | Fps \<Rightarrow> f))"

text \<open>\<open>get_average_metrics()[key]\<close>.\<close>

definition average_metric ::
  "'f arith \<Rightarrow> 'f PerformanceMonitor \<Rightarrow> metric \<Rightarrow> py_error + 'f py_num" where
  "average_metric ar m key =
     (case get_average_metrics ar m of Inl e \<Rightarrow> Inl e | Inr avg \<Rightarrow> Inr (avg key))"

text \<open>
  The defaults 1000, 80 and 2000 are ints; the default 0.8 is a float literal.
\<close>

definition should_switch :: "'f arith \<Rightarrow> 'f PerformanceMonitor \<Rightarrow> py_error + bool" where
  "should_switch ar m =
     (if int (length (history m Latency_ms)) < window_size m then Inr False
      else case get_average_metrics ar m of
          Inl e \<Rightarrow> Inl e
        | Inr avg \<Rightarrow>
            if py_less ar (get_or (thresholds m) ''max_latency_ms'' (PyInt 1000)) (avg Latency_ms)
              then Inr True
            else if py_less ar (get_or (thresholds m) ''max_cpu_percent'' (PyInt 80)) (avg Cpu_percent)
              then Inr True
            else if py_less ar (get_or (thresholds m) ''max_memory_mb'' (PyInt 2000)) (avg Memory_mb)
              then Inr True
            else if py_less ar (avg Fps)
                      (get_or (thresholds m) ''min_fps'' (PyFloat (nearest ar (8 / 10))))
              then Inr True
            else Inr False)"

subsection \<open>GestureRecognitionEngine\<close>

text \<open>
  The attributes the switching methods use. \<open>__init__\<close> creates \<open>last_switch_time\<close>
  (the int 0) and \<open>switch_cooldown\<close> exactly when the mode is dynamic, and they are
  read only under the same test, so they are plain fields here. \<open>current_approach\<close> is
  \<open>JNull\<close> until it is set.
\<close>

record 'f GestureRecognitionEngine =
  config :: py_dict
  current_approach :: json
  performance_monitor :: "'f PerformanceMonitor option"
  last_switch_time :: "'f py_num"
  switch_cooldown :: "'f py_num"

text \<open>\<open>list(self.config.get('approaches', {}).keys())\<close>.\<close>

definition get_available_approaches ::
  "'f GestureRecognitionEngine \<Rightarrow> py_error + string list" where
  "get_available_approaches e =
     (case dict_get_default (config e) ''approaches'' (JObj []) of
        JObj d \<Rightarrow> Inr (map fst d)
      | _ \<Rightarrow> Inl AttributeError)"

text \<open>
  \<open>current_time - self.last_switch_time < self.switch_cooldown\<close>, for a reading
  \<open>current_time\<close> of \<open>time.time()\<close>, which is a float.
\<close>

definition on_cooldown ::
  "'f arith \<Rightarrow> 'f GestureRecognitionEngine \<Rightarrow> 'f \<Rightarrow> py_error + bool" where
  "on_cooldown ar e current_time =
     (case float_minus ar current_time (last_switch_time e) of
        Inl err \<Rightarrow> Inl err
      | Inr elapsed \<Rightarrow> Inr (py_less ar (PyFloat elapsed) (switch_cooldown e)))"

text \<open>
  \<open>switch_approach\<close> reads the clock twice in dynamic mode: \<open>t_check\<close> is the reading
  compared with the cooldown, \<open>t_set\<close> the later one stored in \<open>last_switch_time\<close>.
  The result is the returned flag and the engine after the call.
\<close>

definition switch_approach ::
  "'f arith \<Rightarrow> 'f GestureRecognitionEngine \<Rightarrow> string \<Rightarrow> string \<Rightarrow> 'f \<Rightarrow> 'f
     \<Rightarrow> py_error + (bool \<times> 'f GestureRecognitionEngine)" where
  "switch_approach ar e from_approach to_approach t_check t_set =
     (case get_available_approaches e of
        Inl err \<Rightarrow> Inl err
      | Inr available \<Rightarrow>
          if to_approach \<notin> set available then Inr (False, e)
          else
            case (if dict_get (config e) ''mode'' = JStr ''dynamic''
                  then on_cooldown ar e t_check else Inr False) of
              Inl err \<Rightarrow> Inl err
            | Inr True \<Rightarrow> Inr (False, e)
            | Inr False \<Rightarrow>
                let e1 = e\<lparr>current_approach := JStr to_approach\<rparr>;
                    e2 = (if dict_get (config e1) ''mode'' = JStr ''dynamic''
                          then e1\<lparr>last_switch_time := PyFloat t_set\<rparr> else e1)
                in Inr (True, e2))"

definition should_switch_dynamically ::
  "'f arith \<Rightarrow> 'f GestureRecognitionEngine \<Rightarrow> py_error + string option" where
  "should_switch_dynamically ar e =
     (if dict_get (config e) ''mode'' \<noteq> JStr ''dynamic'' then Inr None
      else case performance_monitor e of
          None \<Rightarrow> Inr None
        | Some m \<Rightarrow>
            (case should_switch ar m of
               Inl err \<Rightarrow> Inl err
             | Inr True \<Rightarrow>
                 (case get_available_approaches e of
                    Inl err \<Rightarrow> Inl err
                  | Inr available_approaches \<Rightarrow>
                      (case first_item (filter (\<lambda>a. JStr a \<noteq> current_approach e) available_approaches) of
                         Inl err \<Rightarrow> Inl err
                       | Inr other_approach \<Rightarrow> Inr (Some other_approach)))
             | Inr False \<Rightarrow> Inr None))"

text \<open>
  \<open>__init__\<close>, for the configurations whose \<open>dynamic\<close> section sets none of
  \<open>performance_thresholds\<close>, \<open>evaluation_window\<close> and \<open>switch_cooldown_seconds\<close>, so
  that the defaults \<open>{}\<close>, 5 and 10 apply; the result is \<open>None\<close> for the other
  configurations, whose values this function does not decode. A \<open>dynamic\<close> entry that
  is not a dict raises. In static mode the two attributes of the dynamic mode do not
  exist; their fields hold the same values and are never read.
\<close>

definition GestureRecognitionEngine_init ::
  "py_dict \<Rightarrow> (py_error + 'f GestureRecognitionEngine) option" where
  "GestureRecognitionEngine_init cfg =
     (if dict_get cfg ''mode'' = JStr ''dynamic'' then
        (case dict_get_default cfg ''dynamic'' (JObj []) of
           JObj d \<Rightarrow>
             if map_of d ''performance_thresholds'' = None
                \<and> map_of d ''evaluation_window'' = None
                \<and> map_of d ''switch_cooldown_seconds'' = None
             then Some (Inr \<lparr>config = cfg, current_approach = JNull,
                             performance_monitor = Some (PerformanceMonitor_init Map.empty 5),
                             last_switch_time = PyInt 0, switch_cooldown = PyInt 10\<rparr>)
             else None
         | _ \<Rightarrow> Some (Inl AttributeError))
      else Some (Inr \<lparr>config = cfg, current_approach = JNull, performance_monitor = None,
                      last_switch_time = PyInt 0, switch_cooldown = PyInt 10\<rparr>))"

text \<open>
  A caller feeding samples to the monitor of the engine:
  \<open>engine.performance_monitor.record(s)\<close> for each sample in turn.
\<close>

definition feed_monitor ::
  "'f GestureRecognitionEngine \<Rightarrow> (string \<rightharpoonup> 'f py_num) list \<Rightarrow> 'f GestureRecognitionEngine" where
  "feed_monitor e samples =
     e\<lparr>performance_monitor := map_option (\<lambda>m. record_all m samples) (performance_monitor e)\<rparr>"

subsection \<open>Notions of the specification\<close>

text \<open>The arithmetic mean of a list of ints, as an exact rational.\<close>

definition int_mean :: "int list \<Rightarrow> rat" where
  "int_mean is = of_int (sum_list is) / of_nat (length is)"

text \<open>The value a sample contributes to a window: the int 0 for a key the sample lacks.\<close>

definition sample_value :: "metric \<Rightarrow> (string \<rightharpoonup> 'f py_num) \<Rightarrow> 'f py_num" where
  "sample_value key s = (case s (key_name key) of None \<Rightarrow> PyInt 0 | Some v \<Rightarrow> v)"

text \<open>
  One of the four thresholds is breached by the averages \<open>avg\<close>: a maximum exceeded,
  or the minimum FPS undercut, with the defaults for absent keys.
\<close>

definition any_threshold_breached ::
  "'f arith \<Rightarrow> 'f PerformanceMonitor \<Rightarrow> (metric \<Rightarrow> 'f py_num) \<Rightarrow> bool" where
  "any_threshold_breached ar m avg =
     (py_less ar (case thresholds m ''max_latency_ms'' of None \<Rightarrow> PyInt 1000 | Some t \<Rightarrow> t)
        (avg Latency_ms)
      \<or> py_less ar (case thresholds m ''max_cpu_percent'' of None \<Rightarrow> PyInt 80 | Some t \<Rightarrow> t)
        (avg Cpu_percent)
      \<or> py_less ar (case thresholds m ''max_memory_mb'' of None \<Rightarrow> PyInt 2000 | Some t \<Rightarrow> t)
        (avg Memory_mb)
      \<or> py_less ar (avg Fps)
        (case thresholds m ''min_fps'' of None \<Rightarrow> PyFloat (nearest ar (8 / 10)) | Some t \<Rightarrow> t))"

text \<open>\<open>config['dynamic']['enabled']\<close>, or \<open>None\<close> when either key is absent.\<close>

definition enabled_value :: "py_dict \<Rightarrow> json option" where
  "enabled_value cfg =
     (case map_of cfg ''dynamic'' of Some (JObj d) \<Rightarrow> map_of d ''enabled'' | _ \<Rightarrow> None)"

text \<open>The string \<open>a\<close> is a key of the mapping stored under \<open>approaches\<close>.\<close>

definition is_approaches_key :: "json \<Rightarrow> py_dict \<Rightarrow> bool" where
  "is_approaches_key a cfg =
     (case a of
        JStr s \<Rightarrow> (case map_of cfg ''approaches'' of
                     Some (JObj d) \<Rightarrow> s \<in> set (map fst d)
                   | _ \<Rightarrow> False)
      | _ \<Rightarrow> False)"

text \<open>
  The validity of a configuration in the words of the specification: the mode is static
  or dynamic; a static configuration names one of the two supported approaches, which is
  a key of \<open>approaches\<close>; a dynamic configuration has \<open>dynamic.enabled\<close> true.
\<close>

definition claimed_valid :: "py_dict \<Rightarrow> bool" where
  "claimed_valid cfg =
     ((dict_get cfg ''mode'' = JStr ''static'' \<or> dict_get cfg ''mode'' = JStr ''dynamic'')
      \<and> (dict_get cfg ''mode'' = JStr ''static'' \<longrightarrow>
            (dict_get cfg ''approach'' = JStr ''mediapipe''
               \<or> dict_get cfg ''approach'' = JStr ''smolvlm'')
            \<and> is_approaches_key (dict_get cfg ''approach'') cfg)
      \<and> (dict_get cfg ''mode'' = JStr ''dynamic'' \<longrightarrow>
            enabled_value cfg = Some (JBool True)))"

text \<open>The same, with Python's truth value of \<open>dynamic.enabled\<close> in place of \<open>true\<close>.\<close>

definition valid_truthy :: "py_dict \<Rightarrow> bool" where
  "valid_truthy cfg =
     ((dict_get cfg ''mode'' = JStr ''static'' \<or> dict_get cfg ''mode'' = JStr ''dynamic'')
      \<and> (dict_get cfg ''mode'' = JStr ''static'' \<longrightarrow>
            (dict_get cfg ''approach'' = JStr ''mediapipe''
               \<or> dict_get cfg ''approach'' = JStr ''smolvlm'')
            \<and> is_approaches_key (dict_get cfg ''approach'') cfg)
      \<and> (dict_get cfg ''mode'' = JStr ''dynamic'' \<longrightarrow>
            (case enabled_value cfg of None \<Rightarrow> False | Some v \<Rightarrow> truthy v)))"

text \<open>The entry \<open>approaches\<close> is a mapping, or absent.\<close>

definition approaches_is_mapping :: "py_dict \<Rightarrow> bool" where
  "approaches_is_mapping cfg =
     (case map_of cfg ''approaches'' of
        None \<Rightarrow> True
      | Some (JObj d) \<Rightarrow> True
      | _ \<Rightarrow> False)"

subsection \<open>Example states\<close>

text \<open>
  An arithmetic without rounding, on floats given by their exact value. It computes what
  binary64 computes whenever every value involved is a binary64 number, as in the
  examples below, whose values are small integers.
\<close>

fun value_of :: "rat py_num \<Rightarrow> rat" where
  "value_of (PyInt i) = of_int i"
| "value_of (PyFloat x) = x"

definition exact_arith :: "rat arith" where
  "exact_arith =
     \<lparr>nearest = (\<lambda>q. q),
      float_div = (\<lambda>x n. x / of_nat n),
      float_sub = (\<lambda>x y. x - y),
      mixed_sum = (\<lambda>xs. Some (sum_list (map value_of xs))),
      num_less = (\<lambda>a b. value_of a < value_of b)\<rparr>"

text \<open>A sample of a slow frame, and a monitor with the default window that has seen five.\<close>

definition slow_sample :: "string \<rightharpoonup> rat py_num" where
  "slow_sample = [''latency_ms'' \<mapsto> PyInt 2000, ''cpu_percent'' \<mapsto> PyInt 10,
                  ''memory_mb'' \<mapsto> PyInt 100, ''fps'' \<mapsto> PyInt 30]"

definition slow_monitor :: "rat PerformanceMonitor" where
  "slow_monitor = record_all (PerformanceMonitor_init Map.empty 5)
     [slow_sample, slow_sample, slow_sample, slow_sample, slow_sample]"

text \<open>The averages of that monitor.\<close>

definition slow_average :: "metric \<Rightarrow> rat py_num" where
  "slow_average key =
     (case key of Latency_ms \<Rightarrow> PyFloat 2000 | Cpu_percent \<Rightarrow> PyFloat 10
                | Memory_mb \<Rightarrow> PyFloat 100 | Fps \<Rightarrow> PyFloat 30)"

text \<open>A monitor of capacity 1 whose only latency sample is the int \<open>10 ^ 309\<close>.\<close>

definition huge_monitor :: "rat PerformanceMonitor" where
  "huge_monitor = record_metrics (PerformanceMonitor_init Map.empty 1)
     [''latency_ms'' \<mapsto> PyInt (10 ^ 309)]"

text \<open>
  A dynamic configuration with the given approaches, and the engine built on it: the
  attributes as \<open>__init__\<close> sets them for this configuration (no thresholds, window 5,
  cooldown 10), with the given current approach and monitor.
\<close>

definition dynamic_config :: "string list \<Rightarrow> py_dict" where
  "dynamic_config names =
     [(''mode'', JStr ''dynamic''),
      (''approach'', JStr ''mediapipe''),
      (''approaches'', JObj (map (\<lambda>n. (n, JObj [(''module'', JStr n)])) names)),
      (''dynamic'', JObj [(''enabled'', JBool True)])]"

definition dynamic_engine ::
  "string list \<Rightarrow> json \<Rightarrow> rat PerformanceMonitor \<Rightarrow> rat GestureRecognitionEngine" where
  "dynamic_engine names cur m =
     \<lparr>config = dynamic_config names, current_approach = cur,
      performance_monitor = Some m, last_switch_time = PyInt 0, switch_cooldown = PyInt 10\<rparr>"

section \<open>Properties\<close>

subsection \<open>The windows\<close>

lemma length_py_slice_from_le: "length (py_slice_from i xs) \<le> length xs"
  by (simp add: py_slice_from_def Let_def)

lemma window_size_record_metrics [simp]:
  "window_size (record_metrics m s) = window_size m"
  by (simp add: record_metrics_def trim_history_def append_metrics_def)

lemma thresholds_record_metrics [simp]:
  "thresholds (record_metrics m s) = thresholds m"
  by (simp add: record_metrics_def trim_history_def append_metrics_def)

lemma history_record_metrics:
  "history (record_metrics m s) key =
     (let xs = history m key @ [get_or s (key_name key) (PyInt 0)]
      in if int (length xs) > window_size m then py_slice_from (- window_size m) xs else xs)"
  by (simp add: record_metrics_def trim_history_def append_metrics_def Let_def)

lemma length_record_metrics_le:
  "length (history (record_metrics m s) key) \<le> Suc (length (history m key))"
proof -
  have "length (py_slice_from (- window_size m) (history m key @ [get_or s (key_name key) (PyInt 0)]))
          \<le> Suc (length (history m key))"
    using length_py_slice_from_le
            [of "- window_size m" "history m key @ [get_or s (key_name key) (PyInt 0)]"]
    by simp
  then show ?thesis
    by (simp add: history_record_metrics Let_def)
qed

lemma record_all_Nil [simp]: "record_all m [] = m"
  by (simp add: record_all_def)

lemma record_all_Cons [simp]:
  "record_all m (s # samples) = record_all (record_metrics m s) samples"
  by (simp add: record_all_def)

lemma record_all_snoc:
  "record_all m (samples @ [s]) = record_metrics (record_all m samples) s"
  by (simp add: record_all_def)

lemma window_size_record_all [simp]:
  "window_size (record_all m samples) = window_size m"
  by (induction samples arbitrary: m) simp_all

lemma thresholds_record_all [simp]:
  "thresholds (record_all m samples) = thresholds m"
  by (induction samples arbitrary: m) simp_all

lemma length_record_all_le:
  "length (history (record_all m samples) key) \<le> length (history m key) + length samples"
proof (induction samples arbitrary: m)
  case Nil
  show ?case by simp
next
  case (Cons s samples)
  have "length (history (record_all (record_metrics m s) samples) key)
          \<le> length (history (record_metrics m s) key) + length samples"
    by (rule Cons.IH)
  also have "\<dots> \<le> Suc (length (history m key)) + length samples"
    using length_record_metrics_le [of m s key] by simp
  finally show ?case by simp
qed

lemma should_switch_short_window:
  "int (length (history m Latency_ms)) < window_size m \<Longrightarrow> should_switch ar m = Inr False"
  by (simp add: should_switch_def)

lemma PerformanceMonitor_init_simps [simp]:
  "window_size (PerformanceMonitor_init thr w) = w"
  "thresholds (PerformanceMonitor_init thr w) = thr"
  "history (PerformanceMonitor_init thr w) key = []"
  by (simp_all add: PerformanceMonitor_init_def)

lemma py_slice_from_neg_Suc:
  "0 < w \<Longrightarrow> int (length xs) = w + 1 \<Longrightarrow> py_slice_from (- w) xs = drop 1 xs"
  by (simp add: py_slice_from_def Let_def)

lemma sample_value_eq: "sample_value key s = get_or s (key_name key) (PyInt 0)"
  by (simp add: sample_value_def get_or_def)

lemma history_record_all_init:
  assumes "0 < w"
  shows "history (record_all (PerformanceMonitor_init thr w) samples) key =
           drop (length samples - nat w) (map (sample_value key) samples)"
proof (induction samples rule: rev_induct)
  case Nil
  show ?case by simp
next
  case (snoc s samples)
  let ?vs = "map (sample_value key) samples"
  let ?v = "sample_value key s"
  let ?H = "drop (length samples - nat w) ?vs"
  have H: "history (record_all (PerformanceMonitor_init thr w) samples) key = ?H"
    by (rule snoc.IH)
  show ?case
  proof (cases "length samples < nat w")
    case True
    then have "int (length (?H @ [?v])) \<le> w" by simp
    with True show ?thesis
      by (simp add: record_all_snoc history_record_metrics H Let_def sample_value_eq [symmetric])
  next
    case False
    then have len: "int (length (?H @ [?v])) = w + 1" using assms by simp
    then have big: "int (length (?H @ [?v])) > w" by simp
    have "py_slice_from (- w) (?H @ [?v]) = drop 1 (?H @ [?v])"
      using assms len by (rule py_slice_from_neg_Suc)
    also have "\<dots> = drop (length (samples @ [s]) - nat w) (map (sample_value key) (samples @ [s]))"
      using False assms by (simp add: Suc_diff_le)
    finally show ?thesis
      using big
      by (simp add: record_all_snoc history_record_metrics H Let_def sample_value_eq [symmetric]
               del: length_append length_drop)
  qed
qed

subsection \<open>The averages\<close>

lemma all_ints_map_PyInt [simp]: "all_ints (map PyInt is) = Some is"
  by (induction "is") simp_all

lemma py_sum_ints: "py_sum ar (map PyInt is) = Inr (PyInt (sum_list is))"
  by (simp add: py_sum_def)

lemma average_of_Nil [simp]: "average_of ar [] = Inr (PyInt 0)"
  by (simp add: average_of_def)

lemma average_of_ints:
  "is \<noteq> [] \<Longrightarrow>
     average_of ar (map PyInt is) =
       (if beyond_float_range (int_mean is) then Inl OverflowError
        else Inr (PyFloat (nearest ar (int_mean is))))"
  by (simp add: average_of_def py_sum_ints py_truediv_def int_mean_def)

lemma average_of_floats:
  "xs \<noteq> [] \<Longrightarrow> all_ints xs = None \<Longrightarrow>
     average_of ar xs =
       (case mixed_sum ar xs of
          None \<Rightarrow> Inl OverflowError
        | Some x \<Rightarrow> Inr (PyFloat (float_div ar x (length xs))))"
  by (simp add: average_of_def py_sum_def py_truediv_def split: option.splits)

lemma average_of_error: "average_of ar xs = Inl e \<Longrightarrow> e = OverflowError"
  by (auto simp: average_of_def py_sum_def py_truediv_def
           split: if_splits option.splits sum.splits py_num.splits)

lemma get_average_metrics_error: "get_average_metrics ar m = Inl e \<Longrightarrow> e = OverflowError"
  unfolding get_average_metrics_def
  by (auto split: sum.splits dest: average_of_error)

lemma get_average_metrics_entry:
  "get_average_metrics ar m = Inr avg \<Longrightarrow> average_of ar (history m key) = Inr (avg key)"
  unfolding get_average_metrics_def
  by (cases key) (auto split: sum.splits)

lemma get_average_metrics_cong:
  "history m = history m' \<Longrightarrow> get_average_metrics ar m = get_average_metrics ar m'"
  unfolding get_average_metrics_def by (erule ssubst) (rule refl)


subsection \<open>The example arithmetic\<close>

lemma exact_arith_simps [simp]:
  "nearest exact_arith q = q"
  "float_div exact_arith x n = x / of_nat n"
  "float_sub exact_arith x y = x - y"
  "mixed_sum exact_arith xs = Some (sum_list (map value_of xs))"
  "num_less exact_arith a b = (value_of a < value_of b)"
  by (simp_all add: exact_arith_def)

lemma py_less_exact_arith [simp]: "py_less exact_arith a b = (value_of a < value_of b)"
  by (cases a; cases b) (simp_all add: py_less_def)

lemma beyond_float_range_small: "\<bar>q\<bar> \<le> 1000000 \<Longrightarrow> \<not> beyond_float_range q"
proof -
  assume small: "\<bar>q\<bar> \<le> 1000000"
  have "(1000000::rat) < 2 ^ 970" by simp
  also have "(2::rat) ^ 970 \<le> 2 ^ 1024 - 2 ^ 970" by simp
  finally show ?thesis using small by (simp add: beyond_float_range_def)
qed

lemma beyond_float_range_huge: "beyond_float_range (10 ^ 309)"
  by (simp add: beyond_float_range_def)

lemma average_of_huge: "average_of ar [PyInt (10 ^ 309)] = Inl OverflowError"
proof -
  have "int_mean [10 ^ 309] = 10 ^ 309"
    by (simp add: int_mean_def)
  then have "beyond_float_range (int_mean [10 ^ 309])"
    using beyond_float_range_huge by (simp only:)
  then show ?thesis
    using average_of_ints [of "[10 ^ 309]" ar] by (simp del: power_numeral)
qed

lemma slow_monitor_history:
  "history slow_monitor key =
     (case key of Latency_ms \<Rightarrow> map PyInt [2000, 2000, 2000, 2000, 2000]
                | Cpu_percent \<Rightarrow> map PyInt [10, 10, 10, 10, 10]
                | Memory_mb \<Rightarrow> map PyInt [100, 100, 100, 100, 100]
                | Fps \<Rightarrow> map PyInt [30, 30, 30, 30, 30])"
  unfolding slow_monitor_def
  using history_record_all_init
          [of 5 Map.empty "[slow_sample, slow_sample, slow_sample, slow_sample, slow_sample]" key]
  by (cases key) (simp_all add: sample_value_def slow_sample_def del: record_all_Cons)

lemma slow_monitor_fields [simp]:
  "window_size slow_monitor = 5" "thresholds slow_monitor = Map.empty"
  by (simp_all add: slow_monitor_def del: record_all_Cons)



lemma get_average_metrics_slow_monitor:
  "get_average_metrics exact_arith slow_monitor = Inr slow_average"
proof -
  have a: "average_of exact_arith (map PyInt [2000, 2000, 2000, 2000, 2000]) = Inr (PyFloat 2000)"
    using average_of_ints [of "[2000, 2000, 2000, 2000, 2000]" exact_arith]
      beyond_float_range_small [of "int_mean [2000, 2000, 2000, 2000, 2000]"]
    by (simp add: int_mean_def)
  have b: "average_of exact_arith (map PyInt [10, 10, 10, 10, 10]) = Inr (PyFloat 10)"
    using average_of_ints [of "[10, 10, 10, 10, 10]" exact_arith]
      beyond_float_range_small [of "int_mean [10, 10, 10, 10, 10]"]
    by (simp add: int_mean_def)
  have c: "average_of exact_arith (map PyInt [100, 100, 100, 100, 100]) = Inr (PyFloat 100)"
    using average_of_ints [of "[100, 100, 100, 100, 100]" exact_arith]
      beyond_float_range_small [of "int_mean [100, 100, 100, 100, 100]"]
    by (simp add: int_mean_def)
  have d: "average_of exact_arith (map PyInt [30, 30, 30, 30, 30]) = Inr (PyFloat 30)"
    using average_of_ints [of "[30, 30, 30, 30, 30]" exact_arith]
      beyond_float_range_small [of "int_mean [30, 30, 30, 30, 30]"]
    by (simp add: int_mean_def)
  have "(\<lambda>key. case key of Latency_ms \<Rightarrow> PyFloat 2000 | Cpu_percent \<Rightarrow> PyFloat 10
                          | Memory_mb \<Rightarrow> PyFloat 100 | Fps \<Rightarrow> PyFloat 30) = slow_average"
    by (rule ext) (simp add: slow_average_def)
  then show ?thesis
    unfolding get_average_metrics_def slow_monitor_history
    by (simp only: metric.case a b c d sum.case)
qed

lemma should_switch_slow_monitor: "should_switch exact_arith slow_monitor = Inr True"
  by (simp add: should_switch_def get_average_metrics_slow_monitor slow_average_def
        slow_monitor_history get_or_def)

lemma should_switch_fresh_monitor:
  "should_switch ar (PerformanceMonitor_init thr 5) = Inr False"
  by (simp add: should_switch_def)

subsection \<open>The claims about the monitor\<close>

text \<open>
  C3. A monitor that has recorded fewer than \<open>window_size\<close> samples since it was
  created does not recommend a switch, whatever the samples and the thresholds are.
\<close>

theorem should_switch_false_before_window_full:
  "int (length samples) < w \<Longrightarrow>
     should_switch ar (record_all (PerformanceMonitor_init thr w) samples) = Inr False"
proof -
  assume less: "int (length samples) < w"
  let ?m = "PerformanceMonitor_init thr w"
  have "length (history (record_all ?m samples) Latency_ms)
          \<le> length (history ?m Latency_ms) + length samples"
    by (rule length_record_all_le)
  then have "length (history (record_all ?m samples) Latency_ms) \<le> length samples"
    by simp
  with less have "int (length (history (record_all ?m samples) Latency_ms))
                    < window_size (record_all ?m samples)"
    by simp
  then show ?thesis
    by (rule should_switch_short_window)
qed

theorem should_switch_false_before_window_full_witness:
  "int (length [[''latency_ms'' \<mapsto> PyInt 5000], [''latency_ms'' \<mapsto> PyInt 5000],
                [''latency_ms'' \<mapsto> PyInt 5000], [''latency_ms'' \<mapsto> (PyInt 5000 :: rat py_num)]]) < 5 \<and>
   should_switch exact_arith (record_all (PerformanceMonitor_init Map.empty 5)
     [[''latency_ms'' \<mapsto> PyInt 5000], [''latency_ms'' \<mapsto> PyInt 5000],
      [''latency_ms'' \<mapsto> PyInt 5000], [''latency_ms'' \<mapsto> PyInt 5000]]) = Inr False"
  using should_switch_false_before_window_full
    [of "[[''latency_ms'' \<mapsto> PyInt 5000], [''latency_ms'' \<mapsto> PyInt 5000],
          [''latency_ms'' \<mapsto> PyInt 5000], [''latency_ms'' \<mapsto> (PyInt 5000 :: rat py_num)]]"
        5 exact_arith Map.empty]
  by simp

text \<open>
  C7 as stated fails: \<open>get_average_metrics\<close> is not total. On a window that holds the
  int \<open>10 ^ 309\<close> the division raises OverflowError.
\<close>

theorem get_average_metrics_overflow_counterexample:
  "history huge_monitor Latency_ms = [PyInt (10 ^ 309)]
   \<and> get_average_metrics exact_arith huge_monitor = Inl OverflowError"
proof -
  have h: "history huge_monitor Latency_ms = [PyInt (10 ^ 309)]"
    unfolding huge_monitor_def by (simp add: history_record_metrics get_or_def)
  have "average_of exact_arith [PyInt (10 ^ 309)] = Inl OverflowError"
    by (rule average_of_huge)
  then have "get_average_metrics exact_arith huge_monitor = Inl OverflowError"
    by (simp only: get_average_metrics_def h sum.case)
  with h show ?thesis by (rule conjI)
qed

text \<open>
  C7, as amended. \<open>get_average_metrics\<close> never divides by zero: the only exception it
  raises is OverflowError. When it returns, the entry of an empty window is 0, the entry
  of a non-empty window of ints is the float nearest to their arithmetic mean, which is
  then within the float range, and the entry of a window with a float is the float sum
  divided by the length. It returns whenever every window is empty or holds ints whose
  mean is within the float range.
\<close>

theorem get_average_metrics_never_divides_by_zero:
  "get_average_metrics ar m \<noteq> Inl ZeroDivisionError
   \<and> (\<forall>e. get_average_metrics ar m = Inl e \<longrightarrow> e = OverflowError)
   \<and> (get_average_metrics ar m = Inr avg \<longrightarrow>
        (history m key = [] \<longrightarrow> avg key = PyInt 0)
        \<and> (history m key = map PyInt is \<and> is \<noteq> [] \<longrightarrow>
             \<not> beyond_float_range (int_mean is) \<and> avg key = PyFloat (nearest ar (int_mean is)))
        \<and> (history m key \<noteq> [] \<and> all_ints (history m key) = None \<longrightarrow>
             (\<exists>x. mixed_sum ar (history m key) = Some x
                  \<and> avg key = PyFloat (float_div ar x (length (history m key))))))
   \<and> ((\<forall>k. \<exists>js. history m k = map PyInt js \<and> (js = [] \<or> \<not> beyond_float_range (int_mean js))) \<longrightarrow>
        (\<exists>avg'. get_average_metrics ar m = Inr avg'))"
proof (intro conjI allI impI)
  show "get_average_metrics ar m \<noteq> Inl ZeroDivisionError"
    using get_average_metrics_error [of ar m ZeroDivisionError] by auto
next
  fix e assume "get_average_metrics ar m = Inl e"
  then show "e = OverflowError" by (rule get_average_metrics_error)
next
  assume "get_average_metrics ar m = Inr avg" and "history m key = []"
  then show "avg key = PyInt 0"
    using get_average_metrics_entry [of ar m avg key] by simp
next
  assume r: "get_average_metrics ar m = Inr avg" and h: "history m key = map PyInt is \<and> is \<noteq> []"
  then have "average_of ar (map PyInt is) = Inr (avg key)"
    using get_average_metrics_entry [of ar m avg key] by simp
  then show "\<not> beyond_float_range (int_mean is)"
    using h by (auto simp: average_of_ints split: if_splits)
next
  assume r: "get_average_metrics ar m = Inr avg" and h: "history m key = map PyInt is \<and> is \<noteq> []"
  then have "average_of ar (map PyInt is) = Inr (avg key)"
    using get_average_metrics_entry [of ar m avg key] by simp
  then show "avg key = PyFloat (nearest ar (int_mean is))"
    using h by (auto simp: average_of_ints split: if_splits)
next
  assume r: "get_average_metrics ar m = Inr avg"
    and h: "history m key \<noteq> [] \<and> all_ints (history m key) = None"
  have "average_of ar (history m key) = Inr (avg key)"
    using r by (rule get_average_metrics_entry)
  then show "\<exists>x. mixed_sum ar (history m key) = Some x
                \<and> avg key = PyFloat (float_div ar x (length (history m key)))"
    using h by (auto simp: average_of_floats split: option.splits)
next
  assume all: "\<forall>k. \<exists>js. history m k = map PyInt js \<and> (js = [] \<or> \<not> beyond_float_range (int_mean js))"
  have "\<exists>v. average_of ar (history m k) = Inr v" for k
  proof -
    from all obtain js where "history m k = map PyInt js"
      and "js = [] \<or> \<not> beyond_float_range (int_mean js)" by blast
    then show ?thesis by (cases "js = []") (auto simp: average_of_ints)
  qed
  then obtain f where "\<And>k. average_of ar (history m k) = Inr (f k)" by metis
  then show "\<exists>avg'. get_average_metrics ar m = Inr avg'"
    by (simp add: get_average_metrics_def)
qed

theorem get_average_metrics_never_divides_by_zero_witness:
  "history slow_monitor Fps = map PyInt [30, 30, 30, 30, 30]
   \<and> average_metric exact_arith slow_monitor Fps = Inr (PyFloat 30)
   \<and> history (PerformanceMonitor_init Map.empty 5 :: rat PerformanceMonitor) Fps = []
   \<and> average_metric exact_arith (PerformanceMonitor_init Map.empty 5) Fps = Inr (PyInt 0)"
proof -
  let ?fresh = "PerformanceMonitor_init Map.empty 5 :: rat PerformanceMonitor"
  have ints: "\<forall>k. \<exists>js. history slow_monitor k = map PyInt js
                      \<and> (js = [] \<or> \<not> beyond_float_range (int_mean js))"
  proof
    fix k
    show "\<exists>js. history slow_monitor k = map PyInt js
               \<and> (js = [] \<or> \<not> beyond_float_range (int_mean js))"
      by (cases k)
         (auto simp: slow_monitor_history int_mean_def intro!: beyond_float_range_small
               intro: exI [of _ "[2000, 2000, 2000, 2000, 2000]"]
                      exI [of _ "[10, 10, 10, 10, 10]"]
                      exI [of _ "[100, 100, 100, 100, 100]"]
                      exI [of _ "[30, 30, 30, 30, 30]"])
  qed
  then obtain avg where avg: "get_average_metrics exact_arith slow_monitor = Inr avg"
    using get_average_metrics_never_divides_by_zero [of exact_arith slow_monitor] by blast
  have fps: "history slow_monitor Fps = map PyInt [30, 30, 30, 30, 30]"
    by (simp add: slow_monitor_history)
  have "avg Fps = PyFloat (nearest exact_arith (int_mean [30, 30, 30, 30, 30]))"
    using get_average_metrics_never_divides_by_zero
            [of exact_arith slow_monitor avg Fps "[30, 30, 30, 30, 30]"] avg fps
    by simp
  then have v: "average_metric exact_arith slow_monitor Fps = Inr (PyFloat 30)"
    using avg by (simp add: int_mean_def average_metric_def)
  have "\<forall>k. \<exists>js. history ?fresh k = map PyInt js
              \<and> (js = [] \<or> \<not> beyond_float_range (int_mean js))"
    by simp
  then obtain avg0 where avg0: "get_average_metrics exact_arith ?fresh = Inr avg0"
    using get_average_metrics_never_divides_by_zero [of exact_arith ?fresh] by blast
  have "avg0 Fps = PyInt 0"
    using get_average_metrics_never_divides_by_zero [of exact_arith ?fresh avg0 Fps] avg0
    by simp
  then have fresh: "average_metric exact_arith ?fresh Fps = Inr (PyInt 0)"
    using avg0 by (simp add: average_metric_def)
  from fps v fresh show ?thesis by simp
qed




text \<open>
  C2 as stated fails. The monitor of capacity 1 that has recorded the int latency
  \<open>10 ^ 309\<close> has four full windows and a mean latency above the default maximum of
  1000, but \<open>should_switch\<close> does not return true: computing the average raises
  OverflowError.
\<close>

theorem should_switch_overflow_counterexample:
  "window_size huge_monitor = 1
   \<and> history huge_monitor Latency_ms = [PyInt (10 ^ 309)]
   \<and> history huge_monitor Cpu_percent = [PyInt 0]
   \<and> history huge_monitor Memory_mb = [PyInt 0]
   \<and> history huge_monitor Fps = [PyInt 0]
   \<and> thresholds huge_monitor ''max_latency_ms'' = None
   \<and> 1000 < int_mean [10 ^ 309]
   \<and> should_switch exact_arith huge_monitor = Inl OverflowError
   \<and> should_switch exact_arith huge_monitor \<noteq> Inr True"
proof -
  have h: "history huge_monitor Latency_ms = [PyInt (10 ^ 309)]"
    "history huge_monitor Cpu_percent = [PyInt 0]"
    "history huge_monitor Memory_mb = [PyInt 0]"
    "history huge_monitor Fps = [PyInt 0]"
    unfolding huge_monitor_def by (simp_all add: history_record_metrics get_or_def)
  have f: "window_size huge_monitor = 1" "thresholds huge_monitor ''max_latency_ms'' = None"
    by (simp_all add: huge_monitor_def)
  have "(1000::rat) < 10 ^ 309"
    by simp
  then have big: "1000 < int_mean [10 ^ 309]"
    by (simp add: int_mean_def del: power_numeral)
  have "average_of exact_arith [PyInt (10 ^ 309)] = Inl OverflowError"
    by (rule average_of_huge)
  then have "get_average_metrics exact_arith huge_monitor = Inl OverflowError"
    by (simp only: get_average_metrics_def h sum.case)
  then have "should_switch exact_arith huge_monitor = Inl OverflowError"
    by (simp add: should_switch_def f h(1) del: power_numeral)
  with h f big show ?thesis by simp
qed

text \<open>
  C2, as amended. On a monitor whose four windows hold at least \<open>window_size\<close> samples,
  \<open>should_switch\<close> raises what \<open>get_average_metrics\<close> raises, and otherwise returns
  true exactly when one of the averages that \<open>get_average_metrics\<close> returns breaches
  its threshold: the latency average exceeds \<open>max_latency_ms\<close> (1000 when the key is
  absent), the CPU average exceeds \<open>max_cpu_percent\<close> (80), the memory average exceeds
  \<open>max_memory_mb\<close> (2000), or the FPS average is below \<open>min_fps\<close> (0.8). One
  breached threshold is enough.
\<close>

theorem should_switch_iff_computed_average_breaches:
  assumes "\<forall>key. window_size m \<le> int (length (history m key))"
  shows "should_switch ar m =
           (case get_average_metrics ar m of
              Inl e \<Rightarrow> Inl e
            | Inr avg \<Rightarrow> Inr (any_threshold_breached ar m avg))
         \<and> (should_switch ar m = Inr True \<longleftrightarrow>
              (\<exists>avg. get_average_metrics ar m = Inr avg \<and> any_threshold_breached ar m avg))
         \<and> (should_switch ar m = Inr False \<longleftrightarrow>
              (\<exists>avg. get_average_metrics ar m = Inr avg \<and> \<not> any_threshold_breached ar m avg))"
proof -
  have full: "\<not> int (length (history m Latency_ms)) < window_size m"
    using assms by (simp add: not_less)
  have eq: "should_switch ar m =
           (case get_average_metrics ar m of
              Inl e \<Rightarrow> Inl e
            | Inr avg \<Rightarrow> Inr (any_threshold_breached ar m avg))"
  proof (cases "get_average_metrics ar m")
    case (Inl e)
    with full show ?thesis by (simp add: should_switch_def)
  next
    case (Inr avg)
    with full show ?thesis
      by (simp add: should_switch_def any_threshold_breached_def get_or_def
               cong: option.case_cong)
  qed
  show ?thesis
    unfolding eq by (auto split: sum.splits)
qed

theorem should_switch_iff_computed_average_breaches_witness:
  "(\<forall>key. window_size slow_monitor \<le> int (length (history slow_monitor key)))
   \<and> average_metric exact_arith slow_monitor Latency_ms = Inr (PyFloat 2000)
   \<and> should_switch exact_arith slow_monitor = Inr True
   \<and> should_switch exact_arith (slow_monitor\<lparr>thresholds := [''max_latency_ms'' \<mapsto> PyInt 5000]\<rparr>)
       = Inr False"
proof -
  let ?calm = "slow_monitor\<lparr>thresholds := [''max_latency_ms'' \<mapsto> PyInt 5000]\<rparr>"
  have full: "\<forall>key. window_size slow_monitor \<le> int (length (history slow_monitor key))"
    by (simp add: slow_monitor_history split: metric.splits)
  have full': "\<forall>key. window_size ?calm \<le> int (length (history ?calm key))"
    by (simp add: slow_monitor_history split: metric.splits)
  have avg: "get_average_metrics exact_arith slow_monitor = Inr slow_average"
    by (rule get_average_metrics_slow_monitor)
  have "history ?calm = history slow_monitor" by simp
  then have avg': "get_average_metrics exact_arith ?calm = Inr slow_average"
    using avg get_average_metrics_cong [of ?calm slow_monitor exact_arith] by simp
  have slow: "should_switch exact_arith slow_monitor = Inr True"
    using should_switch_iff_computed_average_breaches [OF full, of exact_arith] avg
    by (simp add: any_threshold_breached_def slow_average_def)
  have calm: "should_switch exact_arith ?calm = Inr False"
    using should_switch_iff_computed_average_breaches [OF full', of exact_arith] avg'
    by (simp add: any_threshold_breached_def slow_average_def)
  have "average_metric exact_arith slow_monitor Latency_ms = Inr (PyFloat 2000)"
    using avg by (simp add: average_metric_def slow_average_def)
  with full slow calm show ?thesis by simp
qed

text \<open>
  C10 as stated fails in its conclusion. A monitor of capacity 2 whose FPS window is
  0, 10 records a sample without the key \<open>fps\<close>: the window becomes 10, 0, and its
  average is 5 before and after, so the sample has not pulled it toward zero.
\<close>

theorem record_absent_key_average_counterexample:
  "[''latency_ms'' \<mapsto> (PyInt 120 :: rat py_num)] ''fps'' = None
   \<and> history (record_all (PerformanceMonitor_init Map.empty 2)
        [[''fps'' \<mapsto> PyInt 0], [''fps'' \<mapsto> (PyInt 10 :: rat py_num)]]) Fps = [PyInt 0, PyInt 10]
   \<and> history (record_all (PerformanceMonitor_init Map.empty 2)
        [[''fps'' \<mapsto> PyInt 0], [''fps'' \<mapsto> PyInt 10], [''latency_ms'' \<mapsto> (PyInt 120 :: rat py_num)]]) Fps
       = [PyInt 10, PyInt 0]
   \<and> average_of exact_arith [PyInt 0, PyInt 10] = Inr (PyFloat 5)
   \<and> average_of exact_arith [PyInt 10, PyInt 0] = Inr (PyFloat 5)"
proof -
  have a: "average_of exact_arith (map PyInt [0, 10]) = Inr (PyFloat 5)"
    using average_of_ints [of "[0, 10]" exact_arith] beyond_float_range_small [of "int_mean [0, 10]"]
    by (simp add: int_mean_def)
  have b: "average_of exact_arith (map PyInt [10, 0]) = Inr (PyFloat 5)"
    using average_of_ints [of "[10, 0]" exact_arith] beyond_float_range_small [of "int_mean [10, 0]"]
    by (simp add: int_mean_def)
  show ?thesis
    using a b by (simp add: history_record_metrics get_or_def py_slice_from_def)
qed

text \<open>
  C10, as amended. A metric key that the sample lacks is appended to its window as the
  int 0: the sample is neither skipped nor rejected. The window after \<open>record\<close> is a
  suffix of the old window followed by that 0; when \<open>window_size\<close> is not negative it
  is not empty and the 0 is its newest entry, so the average that \<open>get_average_metrics\<close>
  then computes for the key is taken over a window that ends with this 0.
\<close>

theorem record_absent_key_as_zero:
  assumes "metrics (key_name key) = None"
  shows "history (append_metrics m metrics) key = history m key @ [PyInt 0]
         \<and> suffix (history (record_metrics m metrics) key) (history m key @ [PyInt 0])
         \<and> (0 \<le> window_size m \<longrightarrow>
              (\<exists>older. history (record_metrics m metrics) key = older @ [PyInt 0]
                 \<and> suffix older (history m key)
                 \<and> (\<forall>avg. get_average_metrics ar (record_metrics m metrics) = Inr avg \<longrightarrow>
                       average_of ar (older @ [PyInt 0]) = Inr (avg key))))"
proof -
  let ?xs = "history m key @ [PyInt 0]"
  have app: "history (append_metrics m metrics) key = ?xs"
    using assms by (simp add: append_metrics_def get_or_def)
  have rec: "history (record_metrics m metrics) key =
               (if int (length ?xs) > window_size m then py_slice_from (- window_size m) ?xs else ?xs)"
    using assms by (simp add: history_record_metrics get_or_def Let_def)
  have "suffix (py_slice_from i ?xs) ?xs" for i
    unfolding py_slice_from_def Let_def by (rule suffix_drop)
  then have suf: "suffix (history (record_metrics m metrics) key) ?xs"
    unfolding rec by (cases "int (length ?xs) > window_size m") (simp_all only: if_True if_False suffix_order.refl)
  have keep: "\<exists>older. history (record_metrics m metrics) key = older @ [PyInt 0]
                 \<and> suffix older (history m key)
                 \<and> (\<forall>avg. get_average_metrics ar (record_metrics m metrics) = Inr avg \<longrightarrow>
                       average_of ar (older @ [PyInt 0]) = Inr (avg key))"
    if nonneg: "0 \<le> window_size m"
  proof -
    have "\<exists>n. history (record_metrics m metrics) key = drop n ?xs \<and> n \<le> length (history m key)"
    proof (cases "int (length ?xs) > window_size m")
      case True
      then have "history (record_metrics m metrics) key
                   = drop (nat (if - window_size m < 0
                                then max (int (length ?xs) + - window_size m) 0
                                else min (- window_size m) (int (length ?xs)))) ?xs"
        by (simp only: rec py_slice_from_def Let_def if_True)
      moreover have "nat (if - window_size m < 0
                                then max (int (length ?xs) + - window_size m) 0
                                else min (- window_size m) (int (length ?xs)))
                       \<le> length (history m key)"
        using nonneg by (auto simp: max_def min_def)
      ultimately show ?thesis by blast
    next
      case False
      then have "history (record_metrics m metrics) key = drop 0 ?xs"
        by (simp only: rec if_False drop_0)
      then show ?thesis by blast
    qed
    then obtain n where n: "history (record_metrics m metrics) key = drop n ?xs"
      and le: "n \<le> length (history m key)" by blast
    have shape: "history (record_metrics m metrics) key = drop n (history m key) @ [PyInt 0]"
      using n le by simp
    have "average_of ar (drop n (history m key) @ [PyInt 0]) = Inr (avg key)"
      if "get_average_metrics ar (record_metrics m metrics) = Inr avg" for avg
      using get_average_metrics_entry [OF that, of key] shape by simp
    then show ?thesis
      using shape suffix_drop [of n "history m key"] by blast
  qed
  show ?thesis
    using app suf keep by blast
qed

theorem record_absent_key_as_zero_witness:
  "[''latency_ms'' \<mapsto> (PyInt 120 :: rat py_num)] (key_name Fps) = None
   \<and> (0::int) \<le> window_size (record_all (PerformanceMonitor_init Map.empty 2)
        [[''fps'' \<mapsto> PyInt 0], [''fps'' \<mapsto> (PyInt 10 :: rat py_num)]])
   \<and> suffix (history (record_metrics (record_all (PerformanceMonitor_init Map.empty 2)
        [[''fps'' \<mapsto> PyInt 0], [''fps'' \<mapsto> (PyInt 10 :: rat py_num)]]) [''latency_ms'' \<mapsto> PyInt 120]) Fps)
        [PyInt 0, PyInt 10, PyInt 0]
   \<and> history (record_metrics (record_all (PerformanceMonitor_init Map.empty 2)
        [[''fps'' \<mapsto> PyInt 0], [''fps'' \<mapsto> (PyInt 10 :: rat py_num)]]) [''latency_ms'' \<mapsto> PyInt 120]) Fps
       = [PyInt 10, PyInt 0]"
proof -
  let ?m = "record_all (PerformanceMonitor_init Map.empty 2)
        [[''fps'' \<mapsto> PyInt 0], [''fps'' \<mapsto> (PyInt 10 :: rat py_num)]]"
  have absent: "[''latency_ms'' \<mapsto> (PyInt 120 :: rat py_num)] (key_name Fps) = None" by simp
  have old: "history ?m Fps = [PyInt 0, PyInt 10]"
    by (simp add: history_record_metrics get_or_def)
  have new: "history (record_metrics ?m [''latency_ms'' \<mapsto> PyInt 120]) Fps = [PyInt 10, PyInt 0]"
    by (simp add: history_record_metrics get_or_def py_slice_from_def)
  have "suffix (history (record_metrics ?m [''latency_ms'' \<mapsto> PyInt 120]) Fps)
          (history ?m Fps @ [PyInt 0])"
    using record_absent_key_as_zero
            [of "[''latency_ms'' \<mapsto> PyInt 120]" Fps ?m exact_arith] absent
    by blast
  then show ?thesis
    using absent new by (simp add: old del: record_all_Cons)
qed

subsection \<open>The configuration validator\<close>

lemma validate_config_other_mode:
  "dict_get cfg ''mode'' \<noteq> JStr ''static'' \<Longrightarrow> dict_get cfg ''mode'' \<noteq> JStr ''dynamic''
     \<Longrightarrow> validate_config cfg = Inr False"
  by (simp add: validate_config_def)

lemma validate_config_static:
  assumes "dict_get cfg ''mode'' = JStr ''static''" and "approaches_is_mapping cfg"
  shows "validate_config cfg =
           Inr ((dict_get cfg ''approach'' = JStr ''mediapipe''
                   \<or> dict_get cfg ''approach'' = JStr ''smolvlm'')
                \<and> is_approaches_key (dict_get cfg ''approach'') cfg)"
proof (cases "dict_get cfg ''approach''")
  case (JStr a)
  obtain d where d: "dict_get_default cfg ''approaches'' (JObj []) = JObj d"
     and key: "is_approaches_key (JStr a) cfg = (a \<in> set (map fst d))"
    using assms(2)
    by (auto simp: approaches_is_mapping_def dict_get_default_def is_approaches_key_def
             split: option.splits json.splits)
  show ?thesis
    using assms(1) JStr d key by (simp add: validate_config_def str_in_def)
qed (use assms(1) in \<open>simp_all add: validate_config_def is_approaches_key_def\<close>)

lemma validate_config_dynamic:
  assumes "dict_get cfg ''mode'' = JStr ''dynamic''"
  shows "validate_config cfg = Inr True
           \<longleftrightarrow> (case enabled_value cfg of None \<Rightarrow> False | Some v \<Rightarrow> truthy v)"
proof -
  have "validate_config cfg =
          (case json_get (dict_get_default cfg ''dynamic'' (JObj [])) ''enabled'' of
             Inl e \<Rightarrow> Inl e
           | Inr enabled \<Rightarrow> if \<not> truthy enabled then Inr False else Inr True)"
    using assms by (simp add: validate_config_def)
  then show ?thesis
    by (auto simp: json_get_def dict_get_default_def dict_get_def enabled_value_def truthy_def
             split: option.splits json.splits)
qed

text \<open>
  C5 as stated fails. The configuration
  \<open>{"mode": "dynamic", "dynamic": {"enabled": "false"}}\<close> passes validation, although
  \<open>dynamic.enabled\<close> is a string and not true: the test is Python's truth value.
\<close>

theorem validate_config_enabled_string_counterexample:
  "\<not> (validate_config [(''mode'', JStr ''dynamic''),
                        (''dynamic'', JObj [(''enabled'', JStr ''false'')])] = Inr True
       \<longleftrightarrow> claimed_valid [(''mode'', JStr ''dynamic''),
                           (''dynamic'', JObj [(''enabled'', JStr ''false'')])])"
  by (simp add: validate_config_def claimed_valid_def dict_get_def dict_get_default_def
        json_get_def truthy_def enabled_value_def)

text \<open>
  C5, as amended. For a configuration whose entry \<open>approaches\<close> is a mapping or absent,
  \<open>validate_config\<close> returns true exactly when the mode is static or dynamic; and, in
  static mode, \<open>approach\<close> is one of the two supported names and a key of
  \<open>approaches\<close>; and, in dynamic mode, \<open>dynamic.enabled\<close> is present and true in
  Python's sense (not \<open>None\<close>, \<open>false\<close>, zero or empty).
\<close>

theorem validate_config_iff_valid_truthy:
  assumes "approaches_is_mapping cfg"
  shows "validate_config cfg = Inr True \<longleftrightarrow> valid_truthy cfg"
proof -
  consider (static) "dict_get cfg ''mode'' = JStr ''static''"
    | (dynamic) "dict_get cfg ''mode'' = JStr ''dynamic''"
    | (other) "dict_get cfg ''mode'' \<noteq> JStr ''static''" "dict_get cfg ''mode'' \<noteq> JStr ''dynamic''"
    by blast
  then show ?thesis
  proof cases
    case static
    then show ?thesis
      using validate_config_static [OF static assms] by (simp add: valid_truthy_def)
  next
    case dynamic
    then show ?thesis
      using validate_config_dynamic [OF dynamic] by (simp add: valid_truthy_def)
  next
    case other
    then show ?thesis
      using validate_config_other_mode [OF other] by (simp add: valid_truthy_def)
  qed
qed

theorem validate_config_iff_valid_truthy_witness:
  "approaches_is_mapping [(''mode'', JStr ''static''), (''approach'', JStr ''smolvlm''),
       (''approaches'', JObj [(''mediapipe'', JObj []), (''smolvlm'', JObj [])])]
   \<and> validate_config [(''mode'', JStr ''static''), (''approach'', JStr ''smolvlm''),
       (''approaches'', JObj [(''mediapipe'', JObj []), (''smolvlm'', JObj [])])] = Inr True
   \<and> approaches_is_mapping [(''mode'', JStr ''dynamic''), (''dynamic'', JObj [(''enabled'', JNum 0)])]
   \<and> validate_config [(''mode'', JStr ''dynamic''), (''dynamic'', JObj [(''enabled'', JNum 0)])]
       \<noteq> Inr True
   \<and> validate_config [(''mode'', JStr ''dynamic''), (''dynamic'', JObj [(''enabled'', JBool True)])]
       = Inr True"
proof -
  let ?s = "[(''mode'', JStr ''static''), (''approach'', JStr ''smolvlm''),
       (''approaches'', JObj [(''mediapipe'', JObj []), (''smolvlm'', JObj [])])]"
  let ?d = "[(''mode'', JStr ''dynamic''), (''dynamic'', JObj [(''enabled'', JNum 0)])]"
  let ?t = "[(''mode'', JStr ''dynamic''), (''dynamic'', JObj [(''enabled'', JBool True)])]"
  have s: "approaches_is_mapping ?s" by (simp add: approaches_is_mapping_def)
  have d: "approaches_is_mapping ?d" by (simp add: approaches_is_mapping_def)
  have t: "approaches_is_mapping ?t" by (simp add: approaches_is_mapping_def)
  have "validate_config ?s = Inr True"
    using validate_config_iff_valid_truthy [OF s]
    by (simp add: valid_truthy_def dict_get_def is_approaches_key_def)
  moreover have "validate_config ?d \<noteq> Inr True"
    using validate_config_iff_valid_truthy [OF d]
    by (simp add: valid_truthy_def dict_get_def enabled_value_def truthy_def)
  moreover have "validate_config ?t = Inr True"
    using validate_config_iff_valid_truthy [OF t]
    by (simp add: valid_truthy_def dict_get_def enabled_value_def truthy_def)
  ultimately show ?thesis using s d by simp
qed

subsection \<open>The example engine\<close>

lemma dynamic_engine_simps [simp]:
  "dict_get (config (dynamic_engine names cur m)) ''mode'' = JStr ''dynamic''"
  "get_available_approaches (dynamic_engine names cur m) = Inr names"
  "current_approach (dynamic_engine names cur m) = cur"
  "performance_monitor (dynamic_engine names cur m) = Some m"
  "last_switch_time (dynamic_engine names cur m) = PyInt 0"
  "switch_cooldown (dynamic_engine names cur m) = PyInt 10"
  by (simp_all add: dynamic_engine_def dynamic_config_def dict_get_def
        get_available_approaches_def dict_get_default_def comp_def)

lemma config_dynamic_engine_update [simp]:
  "config ((dynamic_engine names cur m)\<lparr>last_switch_time := t, switch_cooldown := c\<rparr>)
     = config (dynamic_engine names cur m)"
  by simp

lemma GestureRecognitionEngine_init_dynamic_config:
  "GestureRecognitionEngine_init (dynamic_config names)
     = Some (Inr (dynamic_engine names JNull (PerformanceMonitor_init Map.empty 5)))"
  by (simp add: GestureRecognitionEngine_init_def dynamic_engine_def dynamic_config_def
        dict_get_def dict_get_default_def)

lemma feed_monitor_dynamic_engine:
  "feed_monitor (dynamic_engine names cur m) samples = dynamic_engine names cur (record_all m samples)"
  by (simp add: feed_monitor_def dynamic_engine_def)

lemma feed_monitor_switched:
  "feed_monitor (e\<lparr>current_approach := c, last_switch_time := t\<rparr>) samples
     = (feed_monitor e samples)\<lparr>current_approach := c, last_switch_time := t\<rparr>"
  by (simp add: feed_monitor_def)

lemma float_minus_zero_exact [simp]: "float_minus exact_arith t (PyInt 0) = Inr t"
  using beyond_float_range_small [of 0] by (simp add: float_minus_def)

subsection \<open>Switching\<close>

lemma get_available_approaches_config:
  "config e' = config e \<Longrightarrow> get_available_approaches e' = get_available_approaches e"
  by (simp add: get_available_approaches_def)



lemma switch_approach_cooldown:
  "get_available_approaches e = Inr available
     \<Longrightarrow> dict_get (config e) ''mode'' = JStr ''dynamic''
     \<Longrightarrow> on_cooldown ar e t_check = Inr True
     \<Longrightarrow> switch_approach ar e from_approach to_approach t_check t_set = Inr (False, e)"
  by (simp add: switch_approach_def)

lemma switch_approach_dynamic_ok:
  "get_available_approaches e = Inr available \<Longrightarrow> to_approach \<in> set available
     \<Longrightarrow> dict_get (config e) ''mode'' = JStr ''dynamic''
     \<Longrightarrow> on_cooldown ar e t_check = Inr False
     \<Longrightarrow> switch_approach ar e from_approach to_approach t_check t_set
           = Inr (True, e\<lparr>current_approach := JStr to_approach, last_switch_time := PyFloat t_set\<rparr>)"
  by (simp add: switch_approach_def Let_def)


lemma switch_approach_False:
  "switch_approach ar e from_approach to_approach t_check t_set = Inr (False, e') \<Longrightarrow> e' = e"
  by (auto simp: switch_approach_def Let_def split: sum.splits if_splits bool.splits)





text \<open>
  C9. A call of \<open>switch_approach\<close> that returns false leaves \<open>current_approach\<close> and
  \<open>last_switch_time\<close>, and with them the whole engine, as they were.
\<close>

theorem switch_approach_rejected_keeps_state:
  assumes "switch_approach ar e from_approach to_approach t_check t_set = Inr (False, e')"
  shows "current_approach e' = current_approach e \<and> last_switch_time e' = last_switch_time e
         \<and> e' = e"
  using switch_approach_False [OF assms] by simp

lemma example_switch_on_cooldown:
  "switch_approach exact_arith
     (dynamic_engine [''mediapipe'', ''smolvlm''] (JStr ''mediapipe'') slow_monitor)
     ''mediapipe'' ''smolvlm'' 3 4
   = Inr (False, dynamic_engine [''mediapipe'', ''smolvlm''] (JStr ''mediapipe'') slow_monitor)"
  by (rule switch_approach_cooldown [of _ "[''mediapipe'', ''smolvlm'']"])
     (simp_all add: on_cooldown_def)

theorem switch_approach_rejected_keeps_state_witness:
  "switch_approach exact_arith
     (dynamic_engine [''mediapipe'', ''smolvlm''] (JStr ''mediapipe'') slow_monitor)
     ''mediapipe'' ''smolvlm'' 3 4
   = Inr (False, dynamic_engine [''mediapipe'', ''smolvlm''] (JStr ''mediapipe'') slow_monitor)
   \<and> current_approach (dynamic_engine [''mediapipe'', ''smolvlm''] (JStr ''mediapipe'') slow_monitor)
       = JStr ''mediapipe''
   \<and> last_switch_time (dynamic_engine [''mediapipe'', ''smolvlm''] (JStr ''mediapipe'') slow_monitor)
       = PyInt 0"
  using switch_approach_rejected_keeps_state [OF example_switch_on_cooldown]
    example_switch_on_cooldown
  by simp

subsection \<open>The switch recommendation\<close>

lemma first_item_filter_first:
  "(\<forall>x\<in>set pre. \<not> P x) \<Longrightarrow> P a \<Longrightarrow> first_item (filter P (pre @ a # post)) = Inr a"
  by (simp add: first_item_def filter_empty_conv [THEN iffD2])

lemma first_item_filter_none:
  "(\<forall>x\<in>set xs. \<not> P x) \<Longrightarrow> first_item (filter P xs) = Inl IndexError"
  by (simp add: first_item_def filter_empty_conv [THEN iffD2])

lemma should_switch_dynamically_off:
  "dict_get (config e) ''mode'' \<noteq> JStr ''dynamic'' \<or> performance_monitor e = None
     \<Longrightarrow> should_switch_dynamically ar e = Inr None"
  by (auto simp: should_switch_dynamically_def)

lemma should_switch_dynamically_on:
  "dict_get (config e) ''mode'' = JStr ''dynamic'' \<Longrightarrow> performance_monitor e = Some m
     \<Longrightarrow> should_switch_dynamically ar e =
          (case should_switch ar m of
             Inl err \<Rightarrow> Inl err
           | Inr True \<Rightarrow>
               (case get_available_approaches e of
                  Inl err \<Rightarrow> Inl err
                | Inr available_approaches \<Rightarrow>
                    (case first_item (filter (\<lambda>a. JStr a \<noteq> current_approach e) available_approaches) of
                       Inl err \<Rightarrow> Inl err
                     | Inr other_approach \<Rightarrow> Inr (Some other_approach)))
           | Inr False \<Rightarrow> Inr None)"
  by (simp add: should_switch_dynamically_def)

text \<open>
  C6. When the mode is not dynamic or the engine has no monitor,
  \<open>should_switch_dynamically\<close> returns none. In dynamic mode with a monitor it
  returns none when the monitor does not recommend a switch; when the monitor recommends
  one and some registered approach differs from \<open>current_approach\<close>, it returns the
  first such name in the key order of the approaches mapping: the keys before it all
  equal the current approach.
\<close>

theorem should_switch_dynamically_result:
  "(dict_get (config e) ''mode'' \<noteq> JStr ''dynamic'' \<or> performance_monitor e = None \<longrightarrow>
      should_switch_dynamically ar e = Inr None)
   \<and> (dict_get (config e) ''mode'' = JStr ''dynamic'' \<and> performance_monitor e = Some m
        \<and> should_switch ar m = Inr False \<longrightarrow>
      should_switch_dynamically ar e = Inr None)
   \<and> (dict_get (config e) ''mode'' = JStr ''dynamic'' \<and> performance_monitor e = Some m
        \<and> should_switch ar m = Inr True
        \<and> get_available_approaches e = Inr (pre @ a # post)
        \<and> (\<forall>x\<in>set pre. JStr x = current_approach e) \<and> JStr a \<noteq> current_approach e \<longrightarrow>
      should_switch_dynamically ar e = Inr (Some a))"
proof (intro conjI impI)
  assume "dict_get (config e) ''mode'' \<noteq> JStr ''dynamic'' \<or> performance_monitor e = None"
  then show "should_switch_dynamically ar e = Inr None"
    by (rule should_switch_dynamically_off)
next
  assume "dict_get (config e) ''mode'' = JStr ''dynamic'' \<and> performance_monitor e = Some m
            \<and> should_switch ar m = Inr False"
  then show "should_switch_dynamically ar e = Inr None"
    by (simp add: should_switch_dynamically_on)
next
  assume h: "dict_get (config e) ''mode'' = JStr ''dynamic'' \<and> performance_monitor e = Some m
        \<and> should_switch ar m = Inr True
        \<and> get_available_approaches e = Inr (pre @ a # post)
        \<and> (\<forall>x\<in>set pre. JStr x = current_approach e) \<and> JStr a \<noteq> current_approach e"
  then have "first_item (filter (\<lambda>a. JStr a \<noteq> current_approach e) (pre @ a # post)) = Inr a"
    by (intro first_item_filter_first) simp_all
  with h show "should_switch_dynamically ar e = Inr (Some a)"
    by (simp add: should_switch_dynamically_on)
qed

theorem should_switch_dynamically_result_witness:
  "should_switch_dynamically exact_arith
     ((dynamic_engine [''mediapipe'', ''smolvlm''] (JStr ''mediapipe'') slow_monitor)
        \<lparr>performance_monitor := None\<rparr>) = Inr None
   \<and> should_switch exact_arith (PerformanceMonitor_init Map.empty 5) = Inr False
   \<and> should_switch_dynamically exact_arith
       (dynamic_engine [''mediapipe'', ''smolvlm''] (JStr ''mediapipe'') (PerformanceMonitor_init Map.empty 5))
       = Inr None
   \<and> should_switch exact_arith slow_monitor = Inr True
   \<and> get_available_approaches (dynamic_engine [''mediapipe'', ''smolvlm'', ''yolo''] (JStr ''mediapipe'') slow_monitor)
       = Inr ([''mediapipe''] @ ''smolvlm'' # [''yolo''])
   \<and> should_switch_dynamically exact_arith
       (dynamic_engine [''mediapipe'', ''smolvlm'', ''yolo''] (JStr ''mediapipe'') slow_monitor)
       = Inr (Some ''smolvlm'')"
proof -
  let ?off = "(dynamic_engine [''mediapipe'', ''smolvlm''] (JStr ''mediapipe'') slow_monitor)
                \<lparr>performance_monitor := None\<rparr>"
  let ?calm = "dynamic_engine [''mediapipe'', ''smolvlm''] (JStr ''mediapipe'')
                 (PerformanceMonitor_init Map.empty 5)"
  let ?slow = "dynamic_engine [''mediapipe'', ''smolvlm'', ''yolo''] (JStr ''mediapipe'') slow_monitor"
  have fresh: "should_switch exact_arith (PerformanceMonitor_init Map.empty 5) = Inr False"
    by (rule should_switch_fresh_monitor)
  have off: "should_switch_dynamically exact_arith ?off = Inr None"
    using should_switch_dynamically_result [of ?off exact_arith] by simp
  have calm: "should_switch_dynamically exact_arith ?calm = Inr None"
    using should_switch_dynamically_result [of ?calm exact_arith "PerformanceMonitor_init Map.empty 5"]
      fresh
    by simp
  have avail: "get_available_approaches ?slow = Inr ([''mediapipe''] @ ''smolvlm'' # [''yolo''])"
    by simp
  have slow: "should_switch_dynamically exact_arith ?slow = Inr (Some ''smolvlm'')"
    using should_switch_dynamically_result
            [of ?slow exact_arith slow_monitor "[''mediapipe'']" "''smolvlm''" "[''yolo'']"]
      should_switch_slow_monitor
    by simp
  from off fresh calm should_switch_slow_monitor avail slow
  show ?thesis by (intro conjI)
qed

text \<open>
  C8. In dynamic mode, when the monitor recommends a switch and no key of the approaches
  mapping differs from \<open>current_approach\<close>, \<open>should_switch_dynamically\<close> does not
  return none: it raises IndexError, because the filtered list is empty. Such states are
  reached: the engine built on a dynamic configuration with no approaches, or with the
  single approach that a switch has made current, after five slow samples.
\<close>

theorem should_switch_dynamically_index_error:
  assumes "dict_get (config e) ''mode'' = JStr ''dynamic''"
    and "performance_monitor e = Some m"
    and "should_switch ar m = Inr True"
    and "get_available_approaches e = Inr available"
    and "\<forall>a\<in>set available. JStr a = current_approach e"
  shows "should_switch_dynamically ar e = Inl IndexError
         \<and> should_switch_dynamically ar e \<noteq> Inr None"
proof -
  have "first_item (filter (\<lambda>a. JStr a \<noteq> current_approach e) available) = Inl IndexError"
    using assms(5) by (intro first_item_filter_none) simp
  then show ?thesis
    using assms(1-4) by (simp add: should_switch_dynamically_on)
qed

theorem should_switch_dynamically_index_error_witness:
  "GestureRecognitionEngine_init (dynamic_config [])
     = Some (Inr (dynamic_engine [] JNull (PerformanceMonitor_init Map.empty 5)))
   \<and> feed_monitor (dynamic_engine [] JNull (PerformanceMonitor_init Map.empty 5))
        [slow_sample, slow_sample, slow_sample, slow_sample, slow_sample]
       = dynamic_engine [] JNull slow_monitor
   \<and> dict_get (config (dynamic_engine [] JNull slow_monitor)) ''mode'' = JStr ''dynamic''
   \<and> should_switch exact_arith slow_monitor = Inr True
   \<and> get_available_approaches (dynamic_engine [] JNull slow_monitor) = Inr []
   \<and> should_switch_dynamically exact_arith (dynamic_engine [] JNull slow_monitor) = Inl IndexError
   \<and> GestureRecognitionEngine_init (dynamic_config [''mediapipe''])
       = Some (Inr (dynamic_engine [''mediapipe''] JNull (PerformanceMonitor_init Map.empty 5)))
   \<and> switch_approach exact_arith
        (dynamic_engine [''mediapipe''] JNull (PerformanceMonitor_init Map.empty 5))
        [] ''mediapipe'' 10 11
       = Inr (True, (dynamic_engine [''mediapipe''] JNull (PerformanceMonitor_init Map.empty 5))
                      \<lparr>current_approach := JStr ''mediapipe'', last_switch_time := PyFloat 11\<rparr>)
   \<and> should_switch_dynamically exact_arith
        (feed_monitor ((dynamic_engine [''mediapipe''] JNull (PerformanceMonitor_init Map.empty 5))
                          \<lparr>current_approach := JStr ''mediapipe'', last_switch_time := PyFloat 11\<rparr>)
           [slow_sample, slow_sample, slow_sample, slow_sample, slow_sample])
       = Inl IndexError"
proof -
  let ?five = "[slow_sample, slow_sample, slow_sample, slow_sample, slow_sample]"
  let ?none = "dynamic_engine [] JNull slow_monitor"
  let ?start = "dynamic_engine [''mediapipe''] JNull (PerformanceMonitor_init Map.empty 5)"
  let ?single = "(dynamic_engine [''mediapipe''] JNull slow_monitor)
                   \<lparr>current_approach := JStr ''mediapipe'', last_switch_time := PyFloat 11\<rparr>"
  have init0: "GestureRecognitionEngine_init (dynamic_config [])
     = Some (Inr (dynamic_engine [] JNull (PerformanceMonitor_init Map.empty 5)))"
    by (rule GestureRecognitionEngine_init_dynamic_config)
  have feed0: "feed_monitor (dynamic_engine [] JNull (PerformanceMonitor_init Map.empty 5)) ?five
                 = ?none"
    by (simp only: feed_monitor_dynamic_engine slow_monitor_def)
  have dyn0: "dict_get (config ?none) ''mode'' = JStr ''dynamic''" by simp
  have mon0: "performance_monitor ?none = Some slow_monitor" by simp
  have avail0: "get_available_approaches ?none = Inr []" by simp
  have all0: "\<forall>a\<in>set []. JStr a = current_approach ?none" by simp
  have none: "should_switch_dynamically exact_arith ?none = Inl IndexError"
    using should_switch_dynamically_index_error
            [OF dyn0 mon0 should_switch_slow_monitor avail0 all0]
    by blast
  have init1: "GestureRecognitionEngine_init (dynamic_config [''mediapipe'']) = Some (Inr ?start)"
    by (rule GestureRecognitionEngine_init_dynamic_config)
  have "on_cooldown exact_arith ?start 10 = Inr False"
    by (simp add: on_cooldown_def)
  then have sw: "switch_approach exact_arith ?start [] ''mediapipe'' 10 11
          = Inr (True, ?start\<lparr>current_approach := JStr ''mediapipe'',
                                last_switch_time := PyFloat 11\<rparr>)"
    by (intro switch_approach_dynamic_ok [of _ "[''mediapipe'']"]) simp_all
  have fed: "feed_monitor (?start\<lparr>current_approach := JStr ''mediapipe'',
                                   last_switch_time := PyFloat 11\<rparr>) ?five = ?single"
    by (simp only: feed_monitor_switched feed_monitor_dynamic_engine slow_monitor_def)
  have avail1: "get_available_approaches ?single = Inr [''mediapipe'']"
    using get_available_approaches_config
            [of ?single "dynamic_engine [''mediapipe''] JNull slow_monitor"]
    by simp
  have dyn1: "dict_get (config ?single) ''mode'' = JStr ''dynamic''" by simp
  have mon1: "performance_monitor ?single = Some slow_monitor" by simp
  have all1: "\<forall>a\<in>set [''mediapipe'']. JStr a = current_approach ?single" by simp
  have "should_switch_dynamically exact_arith ?single = Inl IndexError"
    using should_switch_dynamically_index_error
            [OF dyn1 mon1 should_switch_slow_monitor avail1 all1]
    by blast
  then have single: "should_switch_dynamically exact_arith
        (feed_monitor (?start\<lparr>current_approach := JStr ''mediapipe'',
                                last_switch_time := PyFloat 11\<rparr>) ?five) = Inl IndexError"
    by (simp only: fed)
  from init0 feed0 dyn0 should_switch_slow_monitor avail0 none init1 sw single
  show ?thesis by (intro conjI)
qed

end
